theory Spec2Isabelle
  imports Complex_Main "HOL-Library.AList"
begin

section \<open>Python values used by the simulator\<close>

text \<open>
  Times, edge weights, risk levels and thresholds are Python floats. The source writes
  \<open>float("inf")\<close> and negates and adds times, so the model keeps the two infinities and
  NaN beside the finite values; a finite value is the real number it stands for. Negation,
  comparison and \<open>abs\<close> are exact on floats and are defined here; sums of times are
  taken without rounding.
\<close>

datatype pyfloat = NInf | Fin real | PInf | NaN

fun fneg :: "pyfloat \<Rightarrow> pyfloat" where
  "fneg NInf = PInf"
| "fneg (Fin x) = Fin (- x)"
| "fneg PInf = NInf"
| "fneg NaN = NaN"

fun fadd :: "pyfloat \<Rightarrow> pyfloat \<Rightarrow> pyfloat" where
  "fadd NaN _ = NaN"
| "fadd _ NaN = NaN"
| "fadd PInf NInf = NaN"
| "fadd NInf PInf = NaN"
| "fadd PInf _ = PInf"
| "fadd _ PInf = PInf"
| "fadd NInf _ = NInf"
| "fadd _ NInf = NInf"
| "fadd (Fin x) (Fin y) = Fin (x + y)"

text \<open>\<open>fgt a b\<close> is Python's \<open>a > b\<close>: false whenever NaN takes part.\<close>

fun fgt :: "pyfloat \<Rightarrow> pyfloat \<Rightarrow> bool" where
  "fgt NaN _ = False"
| "fgt _ NaN = False"
| "fgt NInf _ = False"
| "fgt _ PInf = False"
| "fgt _ NInf = True"
| "fgt PInf _ = True"
| "fgt (Fin x) (Fin y) = (y < x)"

text \<open>\<open>feq a b\<close> is Python's \<open>a == b\<close> on floats: NaN equals nothing.\<close>

fun feq :: "pyfloat \<Rightarrow> pyfloat \<Rightarrow> bool" where
  "feq NaN _ = False"
| "feq _ NaN = False"
| "feq a b = (a = b)"

text \<open>\<open>fabs a\<close> is Python's \<open>abs(a)\<close>.\<close>

fun fabs :: "pyfloat \<Rightarrow> pyfloat" where
  "fabs NInf = PInf"
| "fabs (Fin x) = Fin \<bar>x\<bar>"
| "fabs PInf = PInf"
| "fabs NaN = NaN"

text \<open>Python's \<open>max\<close> of a non-empty list keeps the first of the largest items.\<close>

fun pymax :: "pyfloat \<Rightarrow> pyfloat list \<Rightarrow> pyfloat" where
  "pymax m [] = m"
| "pymax m (y # ys) = pymax (if fgt y m then y else m) ys"

text \<open>The exceptions a run can end with; each carries the name or key it complains about.\<close>

datatype error =
    ValueError string
  | KeyError string
  | AttributeError
  | TypeError
  | NameError string
  | OverflowError

section \<open>The STN abstract data type\<close>

text \<open>
  Modelled from the spec: the STN class (module \<open>stntools\<close>) is not among the sources; the
  simulator only calls it. Sections 3 and 6 of the specification describe it as a mapping
  from vertex id to vertex (a vertex carries an executed flag), a mapping from ordered
  pair \<open>(i, j)\<close> to edge, and the received timepoint ids. Python dictionaries keep
  insertion order and the selection loop depends on it, so both mappings are association
  lists. An edge carries its weight (the upper bound of \<open>t_j - t_i\<close>), what
  \<open>get_weight_min\<close> answers, whether it is contingent, and its sampled duration.
\<close>

record edge =
  weight :: pyfloat
  weight_min :: pyfloat
  contingent :: bool
  sampled :: pyfloat

record STN =
  verts :: "(nat \<times> bool) list"
  edges :: "((nat \<times> nat) \<times> edge) list"
  received_timepoints :: "nat list"

definition Z_NODE_ID :: nat where
  "Z_NODE_ID = 0"

text \<open>
  Modelled from the spec: \<open>get_vertex(id)\<close> looks the id up; an id that is no key yields no
  vertex, and calling \<open>is_executed\<close> or \<open>execute\<close> on that result raises.
\<close>

definition get_vertex :: "STN \<Rightarrow> nat \<Rightarrow> bool option" where
  "get_vertex S v = map_of (verts S) v"

text \<open>Modelled from the spec: \<open>execute()\<close> sets the executed flag of a vertex.\<close>

definition execute :: "nat \<Rightarrow> STN \<Rightarrow> STN" where
  "execute v S = S\<lparr>verts := AList.update v True (verts S)\<rparr>"

definition get_edge :: "STN \<Rightarrow> nat \<Rightarrow> nat \<Rightarrow> edge option" where
  "get_edge S i j = map_of (edges S) (i, j)"

text \<open>
  Modelled from the spec: \<open>update_edge(i, j, w, create=True, force=True)\<close> creates the edge
  \<open>(i, j)\<close> or overwrites its weight. The spec gives a created edge nothing but its weight:
  it is a requirement edge with no lower bound recorded.
\<close>

definition update_edge :: "nat \<Rightarrow> nat \<Rightarrow> pyfloat \<Rightarrow> STN \<Rightarrow> STN" where
  "update_edge i j w S =
     S\<lparr>edges := AList.update (i, j)
        (case map_of (edges S) (i, j) of
           Some e \<Rightarrow> e\<lparr>weight := w\<rparr>
         | None \<Rightarrow> \<lparr>weight = w, weight_min = NInf, contingent = False, sampled = Fin 0\<rparr>)
        (edges S)\<rparr>"

text \<open>
  Modelled from the spec: \<open>get_edge_weight(i, j)\<close> is the current upper bound of
  \<open>t_j - t_i\<close>; a pair with no edge is not bounded.
\<close>

definition get_edge_weight :: "STN \<Rightarrow> nat \<Rightarrow> nat \<Rightarrow> pyfloat" where
  "get_edge_weight S i j = (case get_edge S i j of Some e \<Rightarrow> weight e | None \<Rightarrow> PInf)"

text \<open>
  Modelled from the spec: \<open>get_incoming(v)\<close> lists the requirement edges into \<open>v\<close>, and
  \<open>get_incoming_contingent(v)\<close> is the contingent edge into \<open>v\<close>, if any.
\<close>

definition get_incoming :: "STN \<Rightarrow> nat \<Rightarrow> ((nat \<times> nat) \<times> edge) list" where
  "get_incoming S v = filter (\<lambda>(k, e). snd k = v \<and> \<not> contingent e) (edges S)"

definition get_incoming_contingent :: "STN \<Rightarrow> nat \<Rightarrow> ((nat \<times> nat) \<times> edge) option" where
  "get_incoming_contingent S v = find (\<lambda>(k, e). snd k = v \<and> contingent e) (edges S)"

text \<open>
  Modelled from the spec: \<open>get_assigned_time(v)\<close> is the time the constraints \<open>(0, v)\<close> and
  \<open>(v, 0)\<close> pin \<open>v\<close> to, null if they do not; the time of Z is 0.
\<close>

definition get_assigned_time :: "STN \<Rightarrow> nat \<Rightarrow> pyfloat option" where
  "get_assigned_time S v =
     (if v = Z_NODE_ID then Some (Fin 0)
      else case get_edge S Z_NODE_ID v of
             None \<Rightarrow> None
           | Some e \<Rightarrow>
               (case get_edge S v Z_NODE_ID of
                  None \<Rightarrow> None
                | Some e' \<Rightarrow> if feq (weight e) (fneg (weight e')) then Some (weight e) else None))"

text \<open>
  Modelled from the spec: \<open>outgoing_executed(v)\<close> says that the target of every edge out
  of \<open>v\<close> is executed, and \<open>remove_vertex(v)\<close> drops \<open>v\<close> and its incident edges.
\<close>

definition outgoing_executed :: "STN \<Rightarrow> nat \<Rightarrow> bool" where
  "outgoing_executed S v =
     list_all (\<lambda>(k, e). if fst k = v then get_vertex S (snd k) = Some True else True) (edges S)"

definition remove_vertex :: "nat \<Rightarrow> STN \<Rightarrow> STN" where
  "remove_vertex v S =
     S\<lparr>verts := filter (\<lambda>(k, x). k \<noteq> v) (verts S),
       edges := filter (\<lambda>(k, e). fst k \<noteq> v \<and> snd k \<noteq> v) (edges S)\<rparr>"

section \<open>The simulator\<close>

subsection \<open>assign_timepoint\<close>

text \<open>
  \<open>vert_id\<close> is what \<open>select_next_timepoint\<close> chose, so it may be \<open>None\<close>. \<open>None\<close> differs from
  \<open>Z_NODE_ID\<close>, so the source goes on to \<open>update_edge\<close> and then to
  \<open>stn.get_vertex(None).execute()\<close>: no vertex has the null id, and the call raises.
  An id that is not a vertex of the network raises at the same place, after the edges
  were written.
\<close>

definition assign_timepoint :: "STN \<Rightarrow> nat option \<Rightarrow> pyfloat \<Rightarrow> error + STN" where
  "assign_timepoint S vert_id time =
     (case vert_id of
        None \<Rightarrow> Inl AttributeError
      | Some v \<Rightarrow>
          (let S1 = (if v \<noteq> Z_NODE_ID
                     then update_edge v Z_NODE_ID (fneg time) (update_edge Z_NODE_ID v time S)
                     else S)
           in case get_vertex S1 v of
                None \<Rightarrow> Inl AttributeError
              | Some x \<Rightarrow> Inr (execute v S1)))"

subsection \<open>What the simulator calls from outside\<close>

text \<open>
  These are called and not defined in the sources. \<open>srea.srea(stn)\<close> is the SREA oracle:
  a pair of a risk level alpha and a guide STN, or \<open>None\<close> when infeasible.
  \<open>stn.floyd_warshall()\<close> minimises the network in place and answers whether it is
  consistent. \<open>e.resample(rand_state)\<close> draws the sampled duration of a contingent edge
  and advances the generator, whose state has the type \<open>'r\<close>;
  \<open>np.random.RandomState(seed)\<close> with an integer seed is \<open>seed_state seed\<close>.

  The strategies subtract floats and raise them to integer powers. Both round to a double,
  the power can underflow to zero, and Python raises \<open>OverflowError\<close> when the power is out
  of range. The arithmetic is the platform's: \<open>f_sub x y\<close> is \<open>x - y\<close> and \<open>f_pow x k\<close> is
  \<open>x ** k\<close>, as the doubles compute them.
\<close>

record 'r externals =
  srea :: "STN \<Rightarrow> (pyfloat \<times> STN) option"
  floyd_warshall :: "STN \<Rightarrow> bool \<times> STN"
  resample :: "edge \<Rightarrow> 'r \<Rightarrow> pyfloat \<times> 'r"
  seed_state :: "nat \<Rightarrow> 'r"
  f_sub :: "pyfloat \<Rightarrow> pyfloat \<Rightarrow> pyfloat"
  f_pow :: "pyfloat \<Rightarrow> nat \<Rightarrow> error + pyfloat"

subsection \<open>The Simulator object\<close>

text \<open>
  The fields of \<open>Simulator\<close>. The constructor stores \<open>None\<close> in \<open>stn\<close> and
  \<open>assignment_stn\<close>, and \<open>simulate\<close> overwrites both before anything reads them, so
  the fields hold networks. \<open>_rand_seed\<close> only keeps the constructor's argument and is
  never read; it is left out. \<open>srea_calls\<close> is not a field of the source: it counts the
  calls of \<open>srea.srea\<close>, which the claims about the counters speak of.
\<close>

record 'r simulator =
  stn :: STN
  assignment_stn :: STN
  current_time :: pyfloat
  rand_state :: 'r
  num_reschedules :: nat
  num_sent_schedules :: nat
  ar_contingent_event_counter :: nat
  srea_calls :: nat

text \<open>
  The constructor. With the default seed \<open>None\<close>, \<open>np.random.RandomState\<close> seeds the
  generator from the entropy of the operating system: the state it then starts in is an
  input of its own, \<open>os_entropy\<close>. With an integer seed the state is made from the seed.
\<close>

definition Simulator_init :: "'r externals \<Rightarrow> nat option \<Rightarrow> 'r \<Rightarrow> 'r simulator" where
  "Simulator_init ext random_seed os_entropy =
     \<lparr>stn = \<lparr>verts = [], edges = [], received_timepoints = []\<rparr>,
      assignment_stn = \<lparr>verts = [], edges = [], received_timepoints = []\<rparr>,
      current_time = Fin 0,
      rand_state = (case random_seed of None \<Rightarrow> os_entropy | Some n \<Rightarrow> seed_state ext n),
      num_reschedules = 0, num_sent_schedules = 0,
      ar_contingent_event_counter = 0, srea_calls = 0\<rparr>"

text \<open>
  \<open>sim_options\<close> is the dictionary the caller passes; \<open>options\<close> is the dictionary
  \<open>simulate\<close> builds from it. A key that is absent is \<open>None\<close>, and reading it raises
  \<open>KeyError\<close>.
\<close>

record sim_options =
  opt_si_threshold :: "pyfloat option"
  opt_ar_threshold :: "pyfloat option"
  opt_alp_threshold :: "pyfloat option"

record options = sim_options +
  opt_first_run :: bool
  opt_executed_contingent :: bool

text \<open>The call \<open>srea.srea(self.stn)\<close>, counted.\<close>

definition call_srea ::
  "'r externals \<Rightarrow> 'r simulator \<Rightarrow> (pyfloat \<times> STN) option \<times> 'r simulator" where
  "call_srea ext s = (srea ext (stn s), s\<lparr>srea_calls := srea_calls s + 1\<rparr>)"

definition inc_reschedules :: "'r simulator \<Rightarrow> 'r simulator" where
  "inc_reschedules s = s\<lparr>num_reschedules := num_reschedules s + 1\<rparr>"

definition inc_sent_schedules :: "'r simulator \<Rightarrow> 'r simulator" where
  "inc_sent_schedules s = s\<lparr>num_sent_schedules := num_sent_schedules s + 1\<rparr>"

subsection \<open>remaining_contingent_count\<close>

fun count_unexecuted :: "STN \<Rightarrow> nat list \<Rightarrow> nat \<Rightarrow> error + nat" where
  "count_unexecuted S [] num_cont = Inr num_cont"
| "count_unexecuted S (i # rest) num_cont =
     (case get_vertex S i of
        None \<Rightarrow> Inl AttributeError
      | Some x \<Rightarrow> count_unexecuted S rest (if \<not> x then num_cont + 1 else num_cont))"

definition remaining_contingent_count :: "STN \<Rightarrow> error + nat" where
  "remaining_contingent_count S = count_unexecuted S (received_timepoints S) 0"

subsection \<open>The strategies\<close>

text \<open>
  \<open>1 - previous_alpha\<close> is \<open>f_sub ext (Fin 1) previous_alpha\<close>, and \<open>x**k\<close> with a count
  \<open>k\<close> is \<open>f_pow ext x k\<close>, which may raise. Where the source computes \<open>p_0\<close> before
  \<open>p_1\<close>, so does the model.
\<close>

definition srea_wrapper ::
  "'r externals \<Rightarrow> pyfloat \<Rightarrow> STN \<Rightarrow> 'r simulator \<Rightarrow> (pyfloat \<times> STN) \<times> 'r simulator" where
  "srea_wrapper ext previous_alpha previous_guide s =
     (case call_srea ext s of
        (Some result, s1) \<Rightarrow> (result, s1)
      | (None, s1) \<Rightarrow> ((previous_alpha, previous_guide), s1))"

definition srea_algorithm ::
  "'r externals \<Rightarrow> pyfloat \<Rightarrow> STN \<Rightarrow> bool \<Rightarrow> 'r simulator
     \<Rightarrow> (pyfloat \<times> STN) \<times> 'r simulator" where
  "srea_algorithm ext previous_alpha previous_guide first_run s =
     (if first_run
      then srea_wrapper ext previous_alpha previous_guide
             (inc_sent_schedules (inc_reschedules s))
      else ((previous_alpha, previous_guide), s))"

definition drea_algorithm ::
  "'r externals \<Rightarrow> pyfloat \<Rightarrow> STN \<Rightarrow> bool \<Rightarrow> bool \<Rightarrow> 'r simulator
     \<Rightarrow> (pyfloat \<times> STN) \<times> 'r simulator" where
  "drea_algorithm ext previous_alpha previous_guide first_run executed_contingent s =
     (if first_run \<or> executed_contingent
      then srea_wrapper ext previous_alpha previous_guide
             (inc_sent_schedules (inc_reschedules s))
      else ((previous_alpha, previous_guide), s))"

definition drea_si_algorithm ::
  "'r externals \<Rightarrow> pyfloat \<Rightarrow> STN \<Rightarrow> bool \<Rightarrow> bool \<Rightarrow> pyfloat \<Rightarrow> 'r simulator
     \<Rightarrow> (error + pyfloat \<times> STN) \<times> 'r simulator" where
  "drea_si_algorithm ext previous_alpha previous_guide first_run executed_contingent threshold s =
     (if first_run then
        (case call_srea ext s of
           (result, s1) \<Rightarrow>
             (let s2 = inc_sent_schedules (inc_reschedules s1) in
              case result of
                None \<Rightarrow> (Inr (previous_alpha, previous_guide), s2)
              | Some (new_alpha, maybe_guide) \<Rightarrow> (Inr (new_alpha, maybe_guide), s2)))
      else if \<not> executed_contingent then (Inr (previous_alpha, previous_guide), s)
      else
        (case call_srea ext s of
           (result, s1) \<Rightarrow>
             (let s2 = inc_reschedules s1 in
              case result of
                None \<Rightarrow> (Inr (previous_alpha, previous_guide), s2)
              | Some (new_alpha, maybe_guide) \<Rightarrow>
                  (case remaining_contingent_count maybe_guide of
                     Inl e \<Rightarrow> (Inl e, s2)
                   | Inr num_cont \<Rightarrow>
                       (case f_pow ext (f_sub ext (Fin 1) previous_alpha) num_cont of
                          Inl e \<Rightarrow> (Inl e, s2)
                        | Inr p_0 \<Rightarrow>
                            (case f_pow ext (f_sub ext (Fin 1) new_alpha) num_cont of
                               Inl e \<Rightarrow> (Inl e, s2)
                             | Inr p_1 \<Rightarrow>
                                 if fgt (f_sub ext p_1 p_0) threshold
                                 then (Inr (new_alpha, maybe_guide), inc_sent_schedules s2)
                                 else (Inr (previous_alpha, previous_guide), s2)))))))"

definition drea_alp_algorithm ::
  "'r externals \<Rightarrow> pyfloat \<Rightarrow> STN \<Rightarrow> bool \<Rightarrow> bool \<Rightarrow> pyfloat \<Rightarrow> 'r simulator
     \<Rightarrow> (error + pyfloat \<times> STN) \<times> 'r simulator" where
  "drea_alp_algorithm ext previous_alpha previous_guide first_run executed_contingent threshold s =
     (if first_run then
        (case call_srea ext (inc_reschedules s) of
           (None, s1) \<Rightarrow> (Inr (previous_alpha, previous_guide), s1)
         | (Some (new_alpha, maybe_guide), s1) \<Rightarrow> (Inr (new_alpha, maybe_guide), s1))
      else if \<not> executed_contingent then (Inr (previous_alpha, previous_guide), s)
      else
        (case call_srea ext s of
           (result, s1) \<Rightarrow>
             (let s2 = inc_reschedules s1 in
              case result of
                None \<Rightarrow> (Inr (previous_alpha, previous_guide), s2)
              | Some (new_alpha, maybe_guide) \<Rightarrow>
                  (case count_unexecuted maybe_guide (received_timepoints maybe_guide) 0 of
                     Inl e \<Rightarrow> (Inl e, s2)
                   | Inr num_cont \<Rightarrow>
                       if fgt (fabs (f_sub ext new_alpha previous_alpha)) threshold
                       then (Inr (new_alpha, maybe_guide), inc_sent_schedules s2)
                       else (Inr (previous_alpha, previous_guide), s2)))))"

text \<open>
  The inner search of the AR test: the loop
  \<open>while (1-previous_alpha)**(n+1) > threshold and attempts < 100\<close>, started at
  \<open>n = 0\<close>, \<open>attempts = 0\<close>. The power is the left operand of \<open>and\<close>, so it is computed
  on every test of the condition, the last one included, and the search raises when it
  overflows. The search returns both loop variables.
\<close>

function ar_search ::
  "'r externals \<Rightarrow> pyfloat \<Rightarrow> pyfloat \<Rightarrow> nat \<Rightarrow> nat \<Rightarrow> error + nat \<times> nat" where
  "ar_search ext previous_alpha threshold n attempts =
     (case f_pow ext (f_sub ext (Fin 1) previous_alpha) (n + 1) of
        Inl e \<Rightarrow> Inl e
      | Inr p \<Rightarrow>
          if fgt p threshold \<and> attempts < 100
          then ar_search ext previous_alpha threshold (n + 1) (attempts + 1)
          else Inr (n, attempts))"
  by pat_completeness auto
termination
  by (relation "measure (\<lambda>(ext, a, t, n, attempts). 100 - attempts)") auto

declare ar_search.simps [simp del]

definition drea_ar_algorithm ::
  "'r externals \<Rightarrow> pyfloat \<Rightarrow> STN \<Rightarrow> bool \<Rightarrow> bool \<Rightarrow> pyfloat \<Rightarrow> nat \<Rightarrow> 'r simulator
     \<Rightarrow> (error + pyfloat \<times> STN \<times> nat) \<times> 'r simulator" where
  "drea_ar_algorithm ext previous_alpha previous_guide first_run executed_contingent threshold
       contingent_event_counter s =
     (let rest = (\<lambda>s0.
            if \<not> executed_contingent
            then (Inr (previous_alpha, previous_guide, contingent_event_counter), s0)
            else
              (case ar_search ext previous_alpha threshold 0 0 of
                 Inl e \<Rightarrow> (Inl e, s0)
               | Inr (n, attempts) \<Rightarrow>
                   if contingent_event_counter \<ge> n \<or> first_run then
                     (case call_srea ext s0 of
                        (Some (new_alpha, maybe_guide), s1) \<Rightarrow>
                          (Inr (new_alpha, maybe_guide, 0),
                           inc_sent_schedules (inc_reschedules s1))
                      | (None, s1) \<Rightarrow>
                          (Inr (previous_alpha, previous_guide, contingent_event_counter), s1))
                   else (Inr (previous_alpha, previous_guide, contingent_event_counter), s0)))
      in if first_run then
           (case call_srea ext s of
              (Some (new_alpha, new_guide), s1) \<Rightarrow>
                (Inr (new_alpha, new_guide, contingent_event_counter), inc_reschedules s1)
            | (None, s1) \<Rightarrow> rest s1)
         else rest s)"

definition arsi_algorithm ::
  "'r externals \<Rightarrow> pyfloat \<Rightarrow> STN \<Rightarrow> bool \<Rightarrow> bool \<Rightarrow> nat \<Rightarrow> pyfloat \<Rightarrow> pyfloat
     \<Rightarrow> 'r simulator \<Rightarrow> (error + pyfloat \<times> STN \<times> nat) \<times> 'r simulator" where
  "arsi_algorithm ext previous_alpha previous_guide first_run executed_contingent
       contingent_event_counter ar_thr si_thr s =
     (if first_run then
        (case call_srea ext s of
           (Some (new_alpha, new_guide), s1) \<Rightarrow>
             (Inr (new_alpha, new_guide, contingent_event_counter), inc_reschedules s1)
         | (None, s1) \<Rightarrow> (Inr (previous_alpha, previous_guide, contingent_event_counter), s1))
      else if \<not> executed_contingent
      then (Inr (previous_alpha, previous_guide, contingent_event_counter), s)
      else
        (case ar_search ext previous_alpha ar_thr 0 0 of
           Inl e \<Rightarrow> (Inl e, s)
         | Inr (n, attempts) \<Rightarrow>
             (case (if contingent_event_counter \<ge> n
                    then (case call_srea ext s of (result, s1) \<Rightarrow> (result, inc_reschedules s1))
                    else (None, s)) of
                (None, s2) \<Rightarrow>
                  (Inr (previous_alpha, previous_guide, contingent_event_counter), s2)
              | (Some (new_alpha, maybe_guide), s2) \<Rightarrow>
                  (case remaining_contingent_count maybe_guide of
                     Inl e \<Rightarrow> (Inl e, s2)
                   | Inr num_cont \<Rightarrow>
                       (case f_pow ext (f_sub ext (Fin 1) previous_alpha) num_cont of
                          Inl e \<Rightarrow> (Inl e, s2)
                        | Inr p_0 \<Rightarrow>
                            (case f_pow ext (f_sub ext (Fin 1) new_alpha) num_cont of
                               Inl e \<Rightarrow> (Inl e, s2)
                             | Inr p_1 \<Rightarrow>
                                 if fgt (f_sub ext p_1 p_0) si_thr
                                 then (Inr (new_alpha, maybe_guide, 0), inc_sent_schedules s2)
                                 else (Inr (previous_alpha, previous_guide,
                                            contingent_event_counter), s2)))))))"

subsection \<open>get_guide\<close>

text \<open>
  The arguments of each call are evaluated left to right, so a missing threshold raises
  \<open>KeyError\<close> before the strategy runs; under \<open>drea-ar\<close> and \<open>arsi\<close> the contingent-event
  counter has been incremented by then.
\<close>

definition get_guide ::
  "'r externals \<Rightarrow> string \<Rightarrow> pyfloat \<Rightarrow> STN \<Rightarrow> options \<Rightarrow> 'r simulator
     \<Rightarrow> (error + pyfloat \<times> STN) \<times> 'r simulator" where
  "get_guide ext execution_strat previous_alpha previous_guide opts s =
     (if execution_strat = ''early'' then (Inr (Fin 1, stn s), s)
      else if execution_strat = ''srea'' then
        (case srea_algorithm ext previous_alpha previous_guide (opt_first_run opts) s of
           (r, s1) \<Rightarrow> (Inr r, s1))
      else if execution_strat = ''drea'' then
        (case drea_algorithm ext previous_alpha previous_guide (opt_first_run opts)
                (opt_executed_contingent opts) s of
           (r, s1) \<Rightarrow> (Inr r, s1))
      else if execution_strat = ''drea-si'' then
        (case opt_si_threshold opts of
           None \<Rightarrow> (Inl (KeyError ''si_threshold''), s)
         | Some threshold \<Rightarrow>
             drea_si_algorithm ext previous_alpha previous_guide (opt_first_run opts)
               (opt_executed_contingent opts) threshold s)
      else if execution_strat = ''drea-alp'' then
        (case opt_alp_threshold opts of
           None \<Rightarrow> (Inl (KeyError ''alp_threshold''), s)
         | Some threshold \<Rightarrow>
             drea_alp_algorithm ext previous_alpha previous_guide (opt_first_run opts)
               (opt_executed_contingent opts) threshold s)
      else if execution_strat = ''drea-ar'' then
        (let s1 = (if opt_executed_contingent opts
                   then s\<lparr>ar_contingent_event_counter := ar_contingent_event_counter s + 1\<rparr>
                   else s)
         in case opt_ar_threshold opts of
              None \<Rightarrow> (Inl (KeyError ''ar_threshold''), s1)
            | Some threshold \<Rightarrow>
                (case drea_ar_algorithm ext previous_alpha previous_guide (opt_first_run opts)
                        (opt_executed_contingent opts) threshold
                        (ar_contingent_event_counter s1) s1 of
                   (Inl e, s2) \<Rightarrow> (Inl e, s2)
                 | (Inr (a, g, c), s2) \<Rightarrow>
                     (Inr (a, g), s2\<lparr>ar_contingent_event_counter := c\<rparr>)))
      else if execution_strat = ''arsi'' then
        (let s1 = (if opt_executed_contingent opts
                   then s\<lparr>ar_contingent_event_counter := ar_contingent_event_counter s + 1\<rparr>
                   else s)
         in case opt_ar_threshold opts of
              None \<Rightarrow> (Inl (KeyError ''ar_threshold''), s1)
            | Some ar_thr \<Rightarrow>
                (case opt_si_threshold opts of
                   None \<Rightarrow> (Inl (KeyError ''si_threshold''), s1)
                 | Some si_thr \<Rightarrow>
                     (case arsi_algorithm ext previous_alpha previous_guide (opt_first_run opts)
                             (opt_executed_contingent opts) (ar_contingent_event_counter s1)
                             ar_thr si_thr s1 of
                        (Inl e, s2) \<Rightarrow> (Inl e, s2)
                      | (Inr (a, g, c), s2) \<Rightarrow>
                          (Inr (a, g), s2\<lparr>ar_contingent_event_counter := c\<rparr>))))
      else (Inl (ValueError execution_strat), s))"

subsection \<open>select_next_timepoint\<close>

text \<open>
  \<open>all([p.is_executed() for p in predecessors])\<close>: the list is built in full, so a
  predecessor that is no vertex of the dispatch raises whatever the others say.
\<close>

fun all_executed :: "STN \<Rightarrow> nat list \<Rightarrow> error + bool" where
  "all_executed S [] = Inr True"
| "all_executed S (q # qs) =
     (case get_vertex S q of
        None \<Rightarrow> Inl AttributeError
      | Some x \<Rightarrow> (case all_executed S qs of Inl e \<Rightarrow> Inl e | Inr b \<Rightarrow> Inr (x \<and> b)))"

text \<open>
  \<open>[edge.get_weight_min() + self.stn.get_assigned_time(edge.i) for edge in incoming_reqs]\<close>:
  adding \<open>None\<close> to a float raises \<open>TypeError\<close>.
\<close>

fun req_times :: "STN \<Rightarrow> ((nat \<times> nat) \<times> edge) list \<Rightarrow> error + pyfloat list" where
  "req_times S [] = Inr []"
| "req_times S ((k, e) # rest) =
     (case get_assigned_time S (fst k) of
        None \<Rightarrow> Inl TypeError
      | Some t \<Rightarrow>
          (case req_times S rest of
             Inl err \<Rightarrow> Inl err
           | Inr ts \<Rightarrow> Inr (fadd (weight_min e) t # ts)))"

definition earliest_time_of :: "STN \<Rightarrow> STN \<Rightarrow> nat \<Rightarrow> error + pyfloat" where
  "earliest_time_of self_stn dispatch i =
     (case get_incoming_contingent dispatch i of
        None \<Rightarrow>
          (let incoming_reqs = get_incoming dispatch i in
           if incoming_reqs = [] then Inr (Fin 0)
           else (case req_times self_stn incoming_reqs of
                   Inl err \<Rightarrow> Inl err
                 | Inr [] \<Rightarrow> Inl (ValueError ''max'')
                 | Inr (t # ts) \<Rightarrow> Inr (pymax t ts)))
      | Some (k, incoming_contingent) \<Rightarrow>
          (let sample_time = sampled incoming_contingent;
               cont_pred = fst k
           in case get_assigned_time dispatch cont_pred of
                None \<Rightarrow> Inr (get_edge_weight dispatch Z_NODE_ID cont_pred)
              | Some assigned_time \<Rightarrow> Inr (fadd assigned_time sample_time)))"

fun select_loop ::
  "STN \<Rightarrow> STN \<Rightarrow> (nat \<times> bool) list \<Rightarrow> nat option \<times> pyfloat \<times> bool
     \<Rightarrow> error + nat option \<times> pyfloat \<times> bool" where
  "select_loop self_stn dispatch [] acc = Inr acc"
| "select_loop self_stn dispatch ((i, vert_executed) # rest) acc =
     (if vert_executed then select_loop self_stn dispatch rest acc
      else
        (case all_executed dispatch (map (\<lambda>(k, e). fst k) (get_incoming dispatch i)) of
           Inl err \<Rightarrow> Inl err
         | Inr is_enabled \<Rightarrow>
             if \<not> is_enabled then select_loop self_stn dispatch rest acc
             else
               (case earliest_time_of self_stn dispatch i of
                  Inl err \<Rightarrow> Inl err
                | Inr earliest_time \<Rightarrow>
                    if fgt (fst (snd acc)) earliest_time
                    then select_loop self_stn dispatch rest
                           (Some i, earliest_time, get_incoming_contingent dispatch i \<noteq> None)
                    else select_loop self_stn dispatch rest acc)))"

text \<open>The parameter \<open>current_time\<close> of the source is never read; it is \<open>cur_time\<close> here.\<close>

definition select_next_timepoint ::
  "'r simulator \<Rightarrow> STN \<Rightarrow> pyfloat \<Rightarrow> error + nat option \<times> pyfloat \<times> bool" where
  "select_next_timepoint s dispatch cur_time =
     select_loop (stn s) dispatch (verts dispatch) (None, PInf, False)"

subsection \<open>The other methods\<close>

definition propagate_constraints :: "'r externals \<Rightarrow> STN \<Rightarrow> bool \<times> STN" where
  "propagate_constraints ext stn_to_prop = floyd_warshall ext stn_to_prop"

definition all_assigned :: "'r simulator \<Rightarrow> bool" where
  "all_assigned s = list_all (\<lambda>(k, x). x) (verts (stn s))"

fun remove_old_loop :: "nat list \<Rightarrow> STN \<Rightarrow> error + STN" where
  "remove_old_loop [] S = Inr S"
| "remove_old_loop (v_id # rest) S =
     (if v_id = 0 then remove_old_loop rest S
      else if outgoing_executed S v_id then
        (case get_vertex S v_id of
           None \<Rightarrow> Inl AttributeError
         | Some x \<Rightarrow> remove_old_loop rest (if x then remove_vertex v_id S else S))
      else remove_old_loop rest S)"

definition remove_old_timepoints :: "STN \<Rightarrow> error + STN" where
  "remove_old_timepoints S = remove_old_loop (map fst (verts S)) S"

fun resample_edges ::
  "'r externals \<Rightarrow> ((nat \<times> nat) \<times> edge) list \<Rightarrow> 'r \<Rightarrow> ((nat \<times> nat) \<times> edge) list \<times> 'r" where
  "resample_edges ext [] r = ([], r)"
| "resample_edges ext ((k, e) # rest) r =
     (if contingent e then
        (case resample ext e r of
           (d, r1) \<Rightarrow>
             (case resample_edges ext rest r1 of
                (rest1, r2) \<Rightarrow> ((k, e\<lparr>sampled := d\<rparr>) # rest1, r2)))
      else (case resample_edges ext rest r of (rest1, r1) \<Rightarrow> ((k, e) # rest1, r1)))"

text \<open>
  Modelled from the spec: \<open>contingent_edges\<close> is the mapping of the contingent edges, here
  the contingent entries of \<open>edges\<close> in their order. \<open>resample\<close> only writes the
  sampled duration of the edge.
\<close>

definition resample_stored_stn :: "'r externals \<Rightarrow> 'r simulator \<Rightarrow> 'r simulator" where
  "resample_stored_stn ext s =
     (case resample_edges ext (edges (stn s)) (rand_state s) of
        (es, r) \<Rightarrow> s\<lparr>stn := (stn s)\<lparr>edges := es\<rparr>, rand_state := r\<rparr>)"

definition get_assigned_times :: "'r simulator \<Rightarrow> (nat \<times> pyfloat option) list" where
  "get_assigned_times s =
     map (\<lambda>(key, x). (key, if x then get_assigned_time (assignment_stn s) key else None))
       (verts (assignment_stn s))"

subsection \<open>simulate\<close>

text \<open>
  A run ends by returning a boolean or by raising. The dispatch loop need not end for
  every oracle, so it is given fuel, one unit for each iteration; a run that would need
  more ends as \<open>OutOfFuel\<close>. The state returned with \<open>Raised\<close> is the simulator as the last
  completed call left it.
\<close>

datatype outcome = Returned bool | Raised error | OutOfFuel

datatype 'r step =
    Done outcome "'r simulator"
  | Continue options pyfloat STN "'r simulator"

text \<open>
  One pass through the body of \<open>while not self.all_assigned()\<close>. STN objects are values
  here. In the source \<open>guide_stn\<close> can be the very object \<open>self.stn\<close> (at the start, and
  under \<open>early\<close>); the two calls of \<open>assign_timepoint\<close> then write the same edges and
  flag twice, which leaves what one call leaves, and \<open>self.stn\<close> is replaced by the
  propagated copy right after.
\<close>

definition loop_body ::
  "'r externals \<Rightarrow> string \<Rightarrow> bool \<Rightarrow> options \<Rightarrow> pyfloat \<Rightarrow> STN \<Rightarrow> 'r simulator
     \<Rightarrow> 'r step" where
  "loop_body ext execution_strat first_run opts current_alpha guide_stn s =
     (let opts1 = opts\<lparr>opt_first_run := first_run\<rparr> in
      case get_guide ext execution_strat current_alpha guide_stn opts1 s of
        (Inl e, s1) \<Rightarrow> Done (Raised e) s1
      | (Inr (alpha1, guide1), s1) \<Rightarrow>
          (case select_next_timepoint s1 guide1 (current_time s1) of
             Inl e \<Rightarrow> Done (Raised e) s1
           | Inr (next_vert_id, next_time, executed_contingent) \<Rightarrow>
               (let opts2 = opts1\<lparr>opt_executed_contingent := executed_contingent\<rparr> in
                case assign_timepoint guide1 next_vert_id next_time of
                  Inl e \<Rightarrow> Done (Raised e) s1
                | Inr guide2 \<Rightarrow>
                    (case assign_timepoint (stn s1) next_vert_id next_time of
                       Inl e \<Rightarrow> Done (Raised e) s1
                     | Inr stn2 \<Rightarrow>
                         (case assign_timepoint (assignment_stn s1) next_vert_id next_time of
                            Inl e \<Rightarrow> Done (Raised e) (s1\<lparr>stn := stn2\<rparr>)
                          | Inr asg2 \<Rightarrow>
                              (let s2 = s1\<lparr>stn := stn2, assignment_stn := asg2\<rparr> in
                               case propagate_constraints ext (stn s2) of
                                 (consistent, stn_copy) \<Rightarrow>
                                   if \<not> consistent then Done (Returned False) s2
                                   else
                                     (case remove_old_timepoints stn_copy of
                                        Inl e \<Rightarrow> Done (Raised e) (s2\<lparr>stn := stn_copy\<rparr>)
                                      | Inr stn3 \<Rightarrow>
                                          Continue opts2 alpha1 guide2
                                            (s2\<lparr>stn := stn3,
                                                current_time := next_time\<rparr>))))))))"

fun sim_loop ::
  "nat \<Rightarrow> 'r externals \<Rightarrow> string \<Rightarrow> bool \<Rightarrow> options \<Rightarrow> pyfloat \<Rightarrow> STN \<Rightarrow> 'r simulator
     \<Rightarrow> outcome \<times> 'r simulator" where
  "sim_loop 0 ext execution_strat first_run opts current_alpha guide_stn s =
     (if all_assigned s then (Returned True, s) else (OutOfFuel, s))"
| "sim_loop (Suc fuel) ext execution_strat first_run opts current_alpha guide_stn s =
     (if all_assigned s then (Returned True, s)
      else
        (case loop_body ext execution_strat first_run opts current_alpha guide_stn s of
           Done out s1 \<Rightarrow> (out, s1)
         | Continue opts1 alpha1 guide1 s1 \<Rightarrow>
             sim_loop fuel ext execution_strat False opts1 alpha1 guide1 s1))"

definition simulate ::
  "'r externals \<Rightarrow> nat \<Rightarrow> 'r simulator \<Rightarrow> STN \<Rightarrow> string \<Rightarrow> sim_options
     \<Rightarrow> outcome \<times> 'r simulator" where
  "simulate ext fuel s starting_stn execution_strat sim_opts =
     (let s1 = s\<lparr>current_time := Fin 0,
                 stn := starting_stn,
                 assignment_stn := starting_stn,
                 ar_contingent_event_counter := 0,
                 num_reschedules := 0,
                 num_sent_schedules := 0,
                 srea_calls := 0\<rparr>;
          s2 = resample_stored_stn ext s1;
          opts = \<lparr>opt_si_threshold = opt_si_threshold sim_opts,
                  opt_ar_threshold = opt_ar_threshold sim_opts,
                  opt_alp_threshold = opt_alp_threshold sim_opts,
                  opt_first_run = True,
                  opt_executed_contingent = False\<rparr>
      in sim_loop fuel ext execution_strat True opts (Fin 0) (stn s2) s2)"

section \<open>Writing a row to a CSV file\<close>

text \<open>
  The module \<open>sim2csv\<close> runs \<open>import os.path\<close> and \<open>import pandas\<close>, which bind the names
  \<open>os\<close> and \<open>pandas\<close>, and defines \<open>save_csv_row\<close>; the function's own names are its two
  parameters and \<open>df\<close>. A name is looked up among the local names, then the module's, then
  the built-in ones (none of which is \<open>pd\<close>); a name found nowhere raises \<open>NameError\<close>.
\<close>

definition sim2csv_globals :: "string list" where
  "sim2csv_globals = [''os'', ''pandas'', ''save_csv_row'']"

definition resolve_name :: "string list \<Rightarrow> string \<Rightarrow> error + string" where
  "resolve_name local_names name =
     (if name \<in> set local_names \<or> name \<in> set sim2csv_globals
      then Inr name else Inl (NameError name))"

text \<open>
  The file system maps a path to the lines of the file there. \<open>DataFrame.from_dict\<close> and
  \<open>to_csv\<close> belong to pandas: \<open>render header row\<close> stands for the lines \<open>to_csv\<close> writes for
  the frame of \<open>row\<close>.
\<close>

definition save_csv_row ::
  "(bool \<Rightarrow> 'row \<Rightarrow> string list) \<Rightarrow> 'row \<Rightarrow> string \<Rightarrow> (string \<Rightarrow> string list option)
     \<Rightarrow> (error + unit) \<times> (string \<Rightarrow> string list option)" where
  "save_csv_row render row to_file fs =
     (case resolve_name [''row'', ''to_file''] ''pd'' of
        Inl e \<Rightarrow> (Inl e, fs)
      | Inr pd \<Rightarrow>
          (case fs to_file of
             Some old_lines \<Rightarrow> (Inr (), fs(to_file \<mapsto> old_lines @ render False row))
           | None \<Rightarrow> (Inr (), fs(to_file \<mapsto> render True row))))"

section \<open>Auxiliary definitions and example data\<close>

text \<open>
  What a run keeps count of, as one tuple: the two counters, the number of oracle calls
  and the generator state.
\<close>

definition bookkeeping :: "'r simulator \<Rightarrow> nat \<times> nat \<times> nat \<times> 'r" where
  "bookkeeping s = (num_reschedules s, num_sent_schedules s, srea_calls s, rand_state s)"

definition counter_law :: "nat \<times> nat \<times> nat \<times> 'r \<Rightarrow> bool" where
  "counter_law b = (fst (snd b) \<le> fst b)"

text \<open>The simulator as \<open>simulate\<close> has set it up when the dispatch loop starts.\<close>

definition initial_setup :: "'r externals \<Rightarrow> 'r simulator \<Rightarrow> STN \<Rightarrow> 'r simulator" where
  "initial_setup ext s starting_stn =
     resample_stored_stn ext
       (s\<lparr>current_time := Fin 0, stn := starting_stn, assignment_stn := starting_stn,
          ar_contingent_event_counter := 0, num_reschedules := 0, num_sent_schedules := 0,
          srea_calls := 0\<rparr>)"


text \<open>
  Example networks. \<open>stn_trivial\<close> is Z and one timepoint five units after it.
  \<open>stn_blocked\<close> states one constraint between two timepoints twice, once in each
  direction, so each waits for the other. \<open>stn_inconsistent\<close> asks for a timepoint at
  least five and at most one unit after Z. In \<open>stn_done\<close> everything is executed,
  \<open>stn_pending\<close> has two received timepoints still to come, and \<open>stn_contingent\<close> has a
  timepoint two units after Z followed by a contingent duration.
\<close>

definition req_edge :: "real \<Rightarrow> real \<Rightarrow> edge" where
  "req_edge lo hi = \<lparr>weight = Fin hi, weight_min = Fin lo, contingent = False, sampled = Fin 0\<rparr>"

definition stn_trivial :: STN where
  "stn_trivial = \<lparr>verts = [(0, False), (1, False)],
     edges = [((0, 1), req_edge 5 5)], received_timepoints = []\<rparr>"

definition stn_blocked :: STN where
  "stn_blocked = \<lparr>verts = [(0, False), (1, False), (2, False)],
     edges = [((1, 2), req_edge 0 5), ((2, 1), req_edge (- 5) 0)], received_timepoints = []\<rparr>"

definition stn_inconsistent :: STN where
  "stn_inconsistent = \<lparr>verts = [(0, False), (1, False)],
     edges = [((0, 1), req_edge 5 1)], received_timepoints = []\<rparr>"

definition stn_done :: STN where
  "stn_done = \<lparr>verts = [(0, True)], edges = [], received_timepoints = []\<rparr>"

definition stn_pending :: STN where
  "stn_pending = \<lparr>verts = [(0, True), (1, True), (2, False), (3, False)],
     edges = [], received_timepoints = [2, 3]\<rparr>"

definition stn_contingent :: STN where
  "stn_contingent = \<lparr>verts = [(0, False), (1, False), (2, False)],
     edges = [((0, 1), req_edge 2 2),
              ((1, 2), \<lparr>weight = Fin 4, weight_min = Fin 0, contingent = True,
                        sampled = Fin 0\<rparr>)],
     received_timepoints = [2]\<rparr>"

text \<open>
  An arithmetic for the examples: subtraction and power without rounding. It is what the
  doubles compute wherever the exact result is a double, and the examples use small
  dyadic fractions only (1/2, 1/4, 9/16 and the like).
\<close>

definition exact_sub :: "pyfloat \<Rightarrow> pyfloat \<Rightarrow> pyfloat" where
  "exact_sub x y = fadd x (fneg y)"

definition exact_pow :: "pyfloat \<Rightarrow> nat \<Rightarrow> error + pyfloat" where
  "exact_pow x k =
     (if k = 0 then Inr (Fin 1)
      else case x of
             Fin v \<Rightarrow> Inr (Fin (v ^ k))
           | PInf \<Rightarrow> Inr PInf
           | NInf \<Rightarrow> Inr (if even k then PInf else NInf)
           | NaN \<Rightarrow> Inr NaN)"

text \<open>
  Two settings of the outside world: one where SREA answers with risk 1/4 and the network
  it was given and propagation finds no negative cycle, one where SREA is infeasible and
  propagation finds the network inconsistent. The generator state is a number; a draw
  returns it as the duration and moves on to the next.
\<close>

definition ext_consistent :: "nat externals" where
  "ext_consistent = \<lparr>srea = (\<lambda>S. Some (Fin (1/4), S)),
                      floyd_warshall = (\<lambda>S. (True, S)),
                      resample = (\<lambda>e r. (Fin (real r), r + 1)),
                      seed_state = (\<lambda>n. n),
                      f_sub = exact_sub,
                      f_pow = exact_pow\<rparr>"

definition ext_infeasible :: "nat externals" where
  "ext_infeasible = \<lparr>srea = (\<lambda>S. None),
                      floyd_warshall = (\<lambda>S. (False, S)),
                      resample = (\<lambda>e r. (Fin (real r), r + 1)),
                      seed_state = (\<lambda>n. n),
                      f_sub = exact_sub,
                      f_pow = exact_pow\<rparr>"

definition new_simulator :: "nat simulator" where
  "new_simulator = \<lparr>stn = \<lparr>verts = [], edges = [], received_timepoints = []\<rparr>,
     assignment_stn = \<lparr>verts = [], edges = [], received_timepoints = []\<rparr>,
     current_time = Fin 0, rand_state = 0, num_reschedules = 0, num_sent_schedules = 0,
     ar_contingent_event_counter = 0, srea_calls = 0\<rparr>"

definition sim_pending :: "nat simulator" where
  "sim_pending = new_simulator\<lparr>stn := stn_pending, assignment_stn := stn_pending,
     num_reschedules := 1, num_sent_schedules := 1, srea_calls := 1\<rparr>"

definition no_options :: sim_options where
  "no_options = \<lparr>opt_si_threshold = None, opt_ar_threshold = None, opt_alp_threshold = None\<rparr>"

definition all_options :: sim_options where
  "all_options = \<lparr>opt_si_threshold = Some (Fin (1/2)), opt_ar_threshold = Some (Fin (1/2)),
                   opt_alp_threshold = Some (Fin (1/2))\<rparr>"

lemmas model_defs = simulate_def resample_stored_stn_def loop_body_def get_guide_def
  select_next_timepoint_def assign_timepoint_def propagate_constraints_def
  remove_old_timepoints_def all_assigned_def earliest_time_of_def get_incoming_def
  get_incoming_contingent_def get_assigned_time_def get_edge_weight_def get_edge_def
  get_vertex_def execute_def update_edge_def outgoing_executed_def remove_vertex_def
  Z_NODE_ID_def srea_algorithm_def drea_algorithm_def drea_si_algorithm_def
  drea_alp_algorithm_def drea_ar_algorithm_def arsi_algorithm_def srea_wrapper_def
  call_srea_def inc_reschedules_def inc_sent_schedules_def get_assigned_times_def
  remaining_contingent_count_def Simulator_init_def exact_sub_def exact_pow_def
  req_edge_def stn_trivial_def stn_blocked_def stn_inconsistent_def stn_done_def
  stn_pending_def stn_contingent_def ext_consistent_def ext_infeasible_def
  new_simulator_def sim_pending_def no_options_def all_options_def Let_def

section \<open>Properties of the STN operations\<close>









section \<open>The allowable-risk search\<close>





section \<open>assign_timepoint\<close>




section \<open>save_csv_row\<close>

text \<open>
  Claim C10. Whatever the row, the path and the files present, \<open>save_csv_row\<close> raises
  \<open>NameError\<close> for the name \<open>pd\<close> and leaves the file system as it was: the module binds
  \<open>pandas\<close>, never \<open>pd\<close>, and the first statement of the body reads \<open>pd\<close>.
\<close>

theorem save_csv_row_raises:
  "save_csv_row render row to_file fs = (Inl (NameError ''pd''), fs)"
  by (simp add: save_csv_row_def resolve_name_def sim2csv_globals_def)

section \<open>The stochastic-improvement test of drea-si\<close>



section \<open>The allowable-risk test\<close>













section \<open>What the dispatch loop preserves\<close>

lemma get_guide_early: "get_guide ext ''early'' a g opts s = (Inr (Fin 1, stn s), s)"
  by (simp add: get_guide_def)

lemma loop_body_Done_bookkeeping:
  "loop_body ext strat fr opts a g s = Done out s' \<Longrightarrow>
     bookkeeping s' = bookkeeping (snd (get_guide ext strat a g (opts\<lparr>opt_first_run := fr\<rparr>) s))"
  unfolding loop_body_def Let_def
  by (auto simp: bookkeeping_def split: prod.splits sum.splits if_splits)

lemma loop_body_Continue_bookkeeping:
  "loop_body ext strat fr opts a g s = Continue opts' a' g' s' \<Longrightarrow>
     bookkeeping s' = bookkeeping (snd (get_guide ext strat a g (opts\<lparr>opt_first_run := fr\<rparr>) s))"
  unfolding loop_body_def Let_def
  by (auto simp: bookkeeping_def split: prod.splits sum.splits if_splits)

lemma sim_loop_preserves:
  assumes step: "\<And>a g opts s. Q (bookkeeping s) \<Longrightarrow>
                   Q (bookkeeping (snd (get_guide ext strat a g opts s)))"
  shows "Q (bookkeeping s) \<Longrightarrow> Q (bookkeeping (snd (sim_loop fuel ext strat fr opts a g s)))"
proof (induction fuel arbitrary: fr opts a g s)
  case 0
  then show ?case by simp
next
  case (Suc fuel)
  show ?case
  proof (cases "all_assigned s")
    case True
    with Suc.prems show ?thesis by simp
  next
    case False
    show ?thesis
    proof (cases "loop_body ext strat fr opts a g s")
      case (Done out s')
      from loop_body_Done_bookkeeping [OF Done] step [OF Suc.prems]
      have "Q (bookkeeping s')" by simp
      with False Done show ?thesis by simp
    next
      case (Continue opts' a' g' s')
      from loop_body_Continue_bookkeeping [OF Continue] step [OF Suc.prems]
      have "Q (bookkeeping s')" by simp
      from Suc.IH [OF this] False Continue show ?thesis by simp
    qed
  qed
qed

lemma srea_wrapper_bookkeeping:
  "bookkeeping (snd (srea_wrapper ext a g s)) =
     (num_reschedules s, num_sent_schedules s, srea_calls s + 1, rand_state s)"
  by (simp add: srea_wrapper_def call_srea_def bookkeeping_def split: option.splits)

lemma counter_law_srea:
  "counter_law (bookkeeping s) \<Longrightarrow>
     counter_law (bookkeeping (snd (srea_algorithm ext a g fr s)))"
  by (simp add: srea_algorithm_def srea_wrapper_bookkeeping counter_law_def
      inc_reschedules_def inc_sent_schedules_def) (simp add: bookkeeping_def)

lemma counter_law_drea:
  "counter_law (bookkeeping s) \<Longrightarrow>
     counter_law (bookkeeping (snd (drea_algorithm ext a g fr ec s)))"
  by (simp add: drea_algorithm_def srea_wrapper_bookkeeping counter_law_def
      inc_reschedules_def inc_sent_schedules_def) (auto simp add: bookkeeping_def)

lemma counter_law_drea_si:
  "counter_law (bookkeeping s) \<Longrightarrow>
     counter_law (bookkeeping (snd (drea_si_algorithm ext a g fr ec thr s)))"
  by (auto simp: drea_si_algorithm_def call_srea_def counter_law_def bookkeeping_def
      inc_reschedules_def inc_sent_schedules_def Let_def split: option.splits sum.splits)

lemma counter_law_drea_alp:
  "counter_law (bookkeeping s) \<Longrightarrow>
     counter_law (bookkeeping (snd (drea_alp_algorithm ext a g fr ec thr s)))"
  by (auto simp: drea_alp_algorithm_def call_srea_def counter_law_def bookkeeping_def
      inc_reschedules_def inc_sent_schedules_def Let_def split: option.splits sum.splits)

lemma counter_law_drea_ar:
  "counter_law (bookkeeping s) \<Longrightarrow>
     counter_law (bookkeeping (snd (drea_ar_algorithm ext a g fr ec thr c s)))"
  by (auto simp: drea_ar_algorithm_def call_srea_def counter_law_def bookkeeping_def
      inc_reschedules_def inc_sent_schedules_def Let_def
      split: option.splits sum.splits prod.splits)

lemma counter_law_arsi:
  "counter_law (bookkeeping s) \<Longrightarrow>
     counter_law (bookkeeping (snd (arsi_algorithm ext a g fr ec c thr thr' s)))"
  by (auto simp: arsi_algorithm_def call_srea_def counter_law_def bookkeeping_def
      inc_reschedules_def inc_sent_schedules_def Let_def
      split: option.splits sum.splits prod.splits)

lemma bookkeeping_ar_counter [simp]:
  "bookkeeping (s\<lparr>ar_contingent_event_counter := c\<rparr>) = bookkeeping s"
  by (simp add: bookkeeping_def)

lemma get_guide_drea_ar:
  "get_guide ext ''drea-ar'' a g opts s =
     (let s1 = (if opt_executed_contingent opts
                then s\<lparr>ar_contingent_event_counter := ar_contingent_event_counter s + 1\<rparr>
                else s)
      in case opt_ar_threshold opts of
           None \<Rightarrow> (Inl (KeyError ''ar_threshold''), s1)
         | Some threshold \<Rightarrow>
             (case drea_ar_algorithm ext a g (opt_first_run opts)
                     (opt_executed_contingent opts) threshold
                     (ar_contingent_event_counter s1) s1 of
                (Inl e, s2) \<Rightarrow> (Inl e, s2)
              | (Inr (a', g', c), s2) \<Rightarrow>
                  (Inr (a', g'), s2\<lparr>ar_contingent_event_counter := c\<rparr>)))"
  by (simp add: get_guide_def)

lemma get_guide_arsi:
  "get_guide ext ''arsi'' a g opts s =
     (let s1 = (if opt_executed_contingent opts
                then s\<lparr>ar_contingent_event_counter := ar_contingent_event_counter s + 1\<rparr>
                else s)
      in case opt_ar_threshold opts of
           None \<Rightarrow> (Inl (KeyError ''ar_threshold''), s1)
         | Some ar_thr \<Rightarrow>
             (case opt_si_threshold opts of
                None \<Rightarrow> (Inl (KeyError ''si_threshold''), s1)
              | Some si_thr \<Rightarrow>
                  (case arsi_algorithm ext a g (opt_first_run opts)
                          (opt_executed_contingent opts) (ar_contingent_event_counter s1)
                          ar_thr si_thr s1 of
                     (Inl e, s2) \<Rightarrow> (Inl e, s2)
                   | (Inr (a', g', c), s2) \<Rightarrow>
                       (Inr (a', g'), s2\<lparr>ar_contingent_event_counter := c\<rparr>))))"
  by (simp add: get_guide_def)

lemma get_guide_preserves:
  assumes P: "P s"
    and upd: "\<And>s c. P s \<Longrightarrow> P (s\<lparr>ar_contingent_event_counter := c\<rparr>)"
    and h_srea: "\<And>s a g fr. P s \<Longrightarrow> P (snd (srea_algorithm ext a g fr s))"
    and h_drea: "\<And>s a g fr ec. P s \<Longrightarrow> P (snd (drea_algorithm ext a g fr ec s))"
    and h_si: "\<And>s a g fr ec thr. P s \<Longrightarrow> P (snd (drea_si_algorithm ext a g fr ec thr s))"
    and h_alp: "\<And>s a g fr ec thr. P s \<Longrightarrow> P (snd (drea_alp_algorithm ext a g fr ec thr s))"
    and h_ar: "\<And>s a g fr ec thr c. P s \<Longrightarrow> P (snd (drea_ar_algorithm ext a g fr ec thr c s))"
    and h_arsi: "\<And>s a g fr ec c thr thr'. P s \<Longrightarrow>
                 P (snd (arsi_algorithm ext a g fr ec c thr thr' s))"
  shows "P (snd (get_guide ext strat a g opts s))"
proof -
  define s1 where "s1 = (if opt_executed_contingent opts
             then s\<lparr>ar_contingent_event_counter := ar_contingent_event_counter s + 1\<rparr>
             else s)"
  have P1: "P s1" using P upd by (simp add: s1_def)
  consider (c1) "strat = ''early''" | (c2) "strat = ''srea''" | (c3) "strat = ''drea''"
    | (c4) "strat = ''drea-si''" | (c5) "strat = ''drea-alp''" | (c6) "strat = ''drea-ar''"
    | (c7) "strat = ''arsi''"
    | (c8) "strat \<noteq> ''early''" "strat \<noteq> ''srea''" "strat \<noteq> ''drea''"
        "strat \<noteq> ''drea-si''" "strat \<noteq> ''drea-alp''" "strat \<noteq> ''drea-ar''" "strat \<noteq> ''arsi''"
    by blast
  then show ?thesis
  proof cases
    case c1
    with P show ?thesis by (simp add: get_guide_def)
  next
    case c2
    with h_srea [OF P] show ?thesis by (simp add: get_guide_def case_prod_beta)
  next
    case c3
    with h_drea [OF P] show ?thesis by (simp add: get_guide_def case_prod_beta)
  next
    case c4
    with h_si [OF P] P show ?thesis by (simp add: get_guide_def split: option.splits)
  next
    case c5
    with h_alp [OF P] P show ?thesis by (simp add: get_guide_def split: option.splits)
  next
    case c6
    have "P ((snd (drea_ar_algorithm ext a g fr ec thr c s1))
               \<lparr>ar_contingent_event_counter := c'\<rparr>)" for thr c c' fr ec
      using upd h_ar [OF P1] by blast
    with P1 h_ar [OF P1] show ?thesis
      unfolding c6 get_guide_drea_ar s1_def [symmetric] Let_def
      by (simp split: option.splits prod.splits sum.splits) (metis snd_conv)
  next
    case c7
    have "P ((snd (arsi_algorithm ext a g fr ec c thr thr' s1))
               \<lparr>ar_contingent_event_counter := c'\<rparr>)" for thr thr' c c' fr ec
      using upd h_arsi [OF P1] by blast
    with P1 h_arsi [OF P1] show ?thesis
      unfolding c7 get_guide_arsi s1_def [symmetric] Let_def
      by (simp split: option.splits prod.splits sum.splits) (metis snd_conv)
  next
    case c8
    with P show ?thesis by (simp add: get_guide_def)
  qed
qed

lemma counter_law_get_guide:
  assumes "counter_law (bookkeeping s)"
  shows "counter_law (bookkeeping (snd (get_guide ext strat a g opts s)))"
  using assms
  by (rule get_guide_preserves [where P = "\<lambda>s. counter_law (bookkeeping s)"])
    (simp_all add: counter_law_srea counter_law_drea counter_law_drea_si counter_law_drea_alp
      counter_law_drea_ar counter_law_arsi)

lemma simulate_initial_setup:
  "simulate ext fuel s S strat so =
     sim_loop fuel ext strat True
       \<lparr>opt_si_threshold = opt_si_threshold so, opt_ar_threshold = opt_ar_threshold so,
        opt_alp_threshold = opt_alp_threshold so, opt_first_run = True,
        opt_executed_contingent = False\<rparr> (Fin 0) (stn (initial_setup ext s S))
       (initial_setup ext s S)"
  by (simp add: simulate_def initial_setup_def Let_def)

lemma bookkeeping_initial_setup:
  "bookkeeping (initial_setup ext s S) = (0, 0, 0, snd (resample_edges ext (edges S) (rand_state s)))"
  by (simp add: initial_setup_def resample_stored_stn_def bookkeeping_def split: prod.splits)

lemma verts_initial_setup: "verts (stn (initial_setup ext s S)) = verts S"
  by (simp add: initial_setup_def resample_stored_stn_def split: prod.splits)

lemma assignment_initial_setup: "assignment_stn (initial_setup ext s S) = S"
  by (simp add: initial_setup_def resample_stored_stn_def split: prod.splits)



lemma get_guide_unknown:
  assumes "strat \<notin> {''early'', ''srea'', ''drea'', ''drea-si'', ''drea-alp'', ''drea-ar'', ''arsi''}"
  shows "get_guide ext strat a g opts s = (Inl (ValueError strat), s)"
  using assms by (simp add: get_guide_def)

lemma run_trivial_early:
  "fst (simulate ext_consistent 3 new_simulator stn_trivial ''early'' no_options) = Returned True"
  "get_assigned_times (snd (simulate ext_consistent 3 new_simulator stn_trivial ''early'' no_options))
     = [(0, Some (Fin 0)), (1, Some (Fin 5))]"
  by (simp_all add: model_defs eval_nat_numeral)

section \<open>The early strategy\<close>

text \<open>
  Claim C4. Under \<open>early\<close>, \<open>get_guide\<close> returns alpha 1.0 and the working STN and leaves
  the simulator as it was, at every step; SREA is never called; and however a run ends,
  and after however many iterations, \<open>num_reschedules\<close> and \<open>num_sent_schedules\<close> are 0.
  (\<open>run_trivial_early\<close> above is such a run, completed.)
\<close>

theorem early_identity:
  "get_guide ext ''early'' a g opts s = (Inr (Fin 1, stn s), s)
   \<and> srea_calls (snd (simulate ext fuel s S ''early'' so)) = 0
   \<and> num_reschedules (snd (simulate ext fuel s S ''early'' so)) = 0
   \<and> num_sent_schedules (snd (simulate ext fuel s S ''early'' so)) = 0"
proof -
  let ?Q = "\<lambda>b :: nat \<times> nat \<times> nat \<times> 'a. fst b = 0 \<and> fst (snd b) = 0 \<and> fst (snd (snd b)) = 0"
  have "?Q (bookkeeping (snd (simulate ext fuel s S ''early'' so)))"
    unfolding simulate_initial_setup
    by (rule sim_loop_preserves [where Q = ?Q])
      (simp_all add: get_guide_early bookkeeping_initial_setup)
  then show ?thesis by (simp add: get_guide_early bookkeeping_def)
qed

section \<open>The counter law\<close>

text \<open>
  Claim C7. Under every strategy, \<open>get_guide\<close> keeps
  \<open>num_sent_schedules \<le> num_reschedules\<close> when it held before the call, and the law
  holds in the simulator after any number of iterations of the dispatch loop, however the
  run ends: by returning, by raising, or cut off after that many iterations.
\<close>

theorem counter_law_always:
  "(num_sent_schedules s \<le> num_reschedules s \<longrightarrow>
      num_sent_schedules (snd (get_guide ext strat a g opts s))
        \<le> num_reschedules (snd (get_guide ext strat a g opts s)))
   \<and> num_sent_schedules (snd (simulate ext fuel s0 S strat so))
        \<le> num_reschedules (snd (simulate ext fuel s0 S strat so))"
proof -
  have "counter_law (bookkeeping (snd (simulate ext fuel s0 S strat so)))"
    unfolding simulate_initial_setup
    by (rule sim_loop_preserves [where Q = counter_law])
      (simp_all add: counter_law_get_guide bookkeeping_initial_setup, simp add: counter_law_def)
  moreover have "counter_law (bookkeeping s) \<Longrightarrow>
       counter_law (bookkeeping (snd (get_guide ext strat a g opts s)))"
    by (rule counter_law_get_guide)
  ultimately show ?thesis by (simp add: counter_law_def bookkeeping_def)
qed

theorem counter_law_always_witness:
  "num_sent_schedules sim_pending \<le> num_reschedules sim_pending
   \<and> num_sent_schedules
       (snd (get_guide ext_consistent ''drea-alp'' (Fin (1/2)) stn_pending
               \<lparr>opt_si_threshold = None, opt_ar_threshold = None,
                opt_alp_threshold = Some (Fin (1/8)), opt_first_run = False,
                opt_executed_contingent = True\<rparr> sim_pending))
     \<le> num_reschedules
       (snd (get_guide ext_consistent ''drea-alp'' (Fin (1/2)) stn_pending
               \<lparr>opt_si_threshold = None, opt_ar_threshold = None,
                opt_alp_threshold = Some (Fin (1/8)), opt_first_run = False,
                opt_executed_contingent = True\<rparr> sim_pending))
   \<and> num_sent_schedules
       (snd (simulate ext_consistent 3 new_simulator stn_trivial ''drea'' no_options))
     \<le> num_reschedules
       (snd (simulate ext_consistent 3 new_simulator stn_trivial ''drea'' no_options))"
proof -
  have h: "num_sent_schedules sim_pending \<le> num_reschedules sim_pending"
    by (simp add: sim_pending_def)
  from counter_law_always [of sim_pending ext_consistent "''drea-alp''" "Fin (1/2)" stn_pending
      "\<lparr>opt_si_threshold = None, opt_ar_threshold = None,
        opt_alp_threshold = Some (Fin (1/8)), opt_first_run = False,
        opt_executed_contingent = True\<rparr>"]
    counter_law_always [of _ ext_consistent "''drea''" _ _ _ 3 new_simulator stn_trivial
      no_options] h
  show ?thesis by blast
qed

section \<open>Determinism\<close>






section \<open>An unknown strategy\<close>

text \<open>
  Claim C3, as the source has it. The strategy is looked at by \<open>get_guide\<close> only, inside
  the dispatch loop. With a strategy that is none of the seven accepted literals, a run
  whose starting STN has an unexecuted vertex raises the unknown-strategy \<open>ValueError\<close> on
  the first pass of the loop, before any timepoint is selected or assigned: the simulator
  is as the set-up left it, and \<open>assignment_stn\<close> is the starting STN. A run whose
  starting STN has no unexecuted vertex never enters the loop and returns true.
\<close>

theorem unknown_strategy:
  assumes "strat \<notin> {''early'', ''srea'', ''drea'', ''drea-si'', ''drea-alp'', ''drea-ar'', ''arsi''}"
  shows "simulate ext (Suc fuel) s S strat so =
           (if list_all (\<lambda>(k, x). x) (verts S) then Returned True
            else Raised (ValueError strat),
            resample_stored_stn ext
              (s\<lparr>current_time := Fin 0, stn := S, assignment_stn := S,
                 ar_contingent_event_counter := 0, num_reschedules := 0,
                 num_sent_schedules := 0, srea_calls := 0\<rparr>))
         \<and> assignment_stn (snd (simulate ext (Suc fuel) s S strat so)) = S
         \<and> verts (stn (snd (simulate ext (Suc fuel) s S strat so))) = verts S"
proof -
  have aa: "all_assigned (initial_setup ext s S) = list_all (\<lambda>(k, x). x) (verts S)"
    by (simp add: all_assigned_def verts_initial_setup)
  have lb: "loop_body ext strat fr opts a g s' = Done (Raised (ValueError strat)) s'"
    for fr opts a g s'
    by (simp add: loop_body_def get_guide_unknown [OF assms])
  have eq: "simulate ext (Suc fuel) s S strat so =
           (if list_all (\<lambda>(k, x). x) (verts S) then Returned True
            else Raised (ValueError strat), initial_setup ext s S)"
    by (simp add: simulate_initial_setup aa lb)
  show ?thesis
    unfolding eq by (simp add: verts_initial_setup assignment_initial_setup) (simp add: initial_setup_def)
qed

theorem unknown_strategy_witness:
  "''bogus'' \<notin> {''early'', ''srea'', ''drea'', ''drea-si'', ''drea-alp'', ''drea-ar'', ''arsi''}
   \<and> fst (simulate ext_consistent (Suc 0) new_simulator stn_trivial ''bogus'' no_options)
       = Raised (ValueError ''bogus'')
   \<and> assignment_stn (snd (simulate ext_consistent (Suc 0) new_simulator stn_trivial ''bogus''
        no_options)) = stn_trivial"
proof -
  have h: "''bogus'' \<notin> {''early'', ''srea'', ''drea'', ''drea-si'', ''drea-alp'', ''drea-ar'',
      ''arsi''}"
    by simp
  have u: "\<not> list_all (\<lambda>(k, x). x) (verts stn_trivial)"
    by (simp add: stn_trivial_def)
  from unknown_strategy [OF h, of ext_consistent 0 new_simulator stn_trivial no_options] h u
  show ?thesis by (simp add: resample_stored_stn_def split: prod.splits)
qed

text \<open>
  The claim as first worded has every such call raise, and before the loop. With the
  network in which everything is executed, the call returns true.
\<close>

theorem unknown_strategy_counterexample:
  "fst (simulate ext_consistent 1 new_simulator stn_done ''bogus'' no_options) = Returned True"
  by (simp add: model_defs eval_nat_numeral)

section \<open>No selectable timepoint\<close>

text \<open>
  \<open>simulate\<close> does not look at the vertex \<open>select_next_timepoint\<close> returns before it
  passes it on: when the selection is the null vertex, the pass through the loop ends in
  \<open>assign_timepoint\<close>, which raises.
\<close>

lemma loop_body_null_vertex:
  assumes "get_guide ext strat a g (opts\<lparr>opt_first_run := fr\<rparr>) s = (Inr (a1, g1), s1)"
    and "select_next_timepoint s1 g1 (current_time s1) = Inr (None, t, c)"
  shows "loop_body ext strat fr opts a g s = Done (Raised AttributeError) s1"
  using assms by (simp add: loop_body_def assign_timepoint_def)

text \<open>
  Claim C1 says that a run in which \<open>select_next_timepoint\<close> returns the null vertex while
  unassigned vertices remain returns false. The run of \<open>stn_blocked\<close> under \<open>early\<close> is
  such a run: after Z is executed, each of the two other timepoints waits for the other,
  the selection is \<open>(None, inf, False)\<close> with two vertices unexecuted, and the run ends by
  raising, not by returning false.
\<close>

theorem simulate_null_vertex_raises:
  "fst (simulate ext_consistent 3 new_simulator stn_blocked ''early'' no_options)
     = Raised AttributeError
   \<and> all_assigned (snd (simulate ext_consistent 3 new_simulator stn_blocked ''early'' no_options))
     = False
   \<and> select_next_timepoint
       (snd (simulate ext_consistent 3 new_simulator stn_blocked ''early'' no_options))
       (stn (snd (simulate ext_consistent 3 new_simulator stn_blocked ''early'' no_options)))
       (Fin 0)
     = Inr (None, PInf, False)"
  by (simp add: model_defs eval_nat_numeral)

section \<open>What the counters count\<close>

text \<open>
  Claim C2 says that every call of SREA adds one to \<open>num_reschedules\<close> and that
  \<open>num_sent_schedules\<close> grows exactly when a new guide is adopted. Three runs in which
  the source does otherwise. Under \<open>drea-ar\<close> with SREA infeasible, SREA is called once and
  \<open>num_reschedules\<close> stays 0. Under \<open>srea\<close> with SREA infeasible, no guide is adopted (the
  guide returned on the first step is the previous one) and \<open>num_sent_schedules\<close> is 1.
  Under \<open>drea-alp\<close> with SREA feasible, the guide of the first step is adopted and
  \<open>num_sent_schedules\<close> stays 0, where \<open>drea-si\<close> on the same network counts it.
\<close>

theorem counters_miscount:
  "fst (simulate ext_infeasible 3 new_simulator stn_inconsistent ''drea-ar'' all_options)
     = Returned False
   \<and> srea_calls
       (snd (simulate ext_infeasible 3 new_simulator stn_inconsistent ''drea-ar'' all_options)) = 1
   \<and> num_reschedules
       (snd (simulate ext_infeasible 3 new_simulator stn_inconsistent ''drea-ar'' all_options)) = 0
   \<and> fst (get_guide ext_infeasible ''srea'' (Fin 0) stn_inconsistent
            \<lparr>opt_si_threshold = None, opt_ar_threshold = None, opt_alp_threshold = None,
             opt_first_run = True, opt_executed_contingent = False\<rparr> new_simulator)
     = Inr (Fin 0, stn_inconsistent)
   \<and> num_sent_schedules
       (snd (simulate ext_infeasible 3 new_simulator stn_inconsistent ''srea'' all_options)) = 1
   \<and> fst (simulate ext_consistent 3 new_simulator stn_trivial ''drea-alp'' all_options)
     = Returned True
   \<and> fst (get_guide ext_consistent ''drea-alp'' (Fin 0) stn_trivial
            \<lparr>opt_si_threshold = Some (Fin (1/2)), opt_ar_threshold = Some (Fin (1/2)),
             opt_alp_threshold = Some (Fin (1/2)), opt_first_run = True,
             opt_executed_contingent = False\<rparr>
            (initial_setup ext_consistent new_simulator stn_trivial))
     = Inr (Fin (1/4), stn_trivial)
   \<and> srea_calls
       (snd (simulate ext_consistent 3 new_simulator stn_trivial ''drea-alp'' all_options)) = 1
   \<and> num_sent_schedules
       (snd (simulate ext_consistent 3 new_simulator stn_trivial ''drea-alp'' all_options)) = 0
   \<and> num_sent_schedules
       (snd (simulate ext_consistent 3 new_simulator stn_trivial ''drea-si'' all_options)) = 1"
  by (simp add: model_defs initial_setup_def eval_nat_numeral)

end
